theory Spec2Isabelle
  imports Main "HOL-Library.Sublist"
begin

section \<open>Strings\<close>

text \<open>
  A JavaScript string is modelled as a HOL \<open>string\<close>, one \<open>char\<close> per code unit, over
  ASCII: case mapping changes the 26 letters only and whitespace is TAB, LF, VT, FF, CR
  and SPACE. The theorems about schedule filtering do not look inside the case mapping,
  and the theorems about form validation use \<open>trim\<close> only as a function.
\<close>

definition toLowerCase_char :: "char \<Rightarrow> char" where
  "toLowerCase_char c =
     (let n = (of_char c :: nat) in if 65 \<le> n \<and> n \<le> 90 then char_of (n + 32) else c)"

definition toLowerCase :: "string \<Rightarrow> string" where
  "toLowerCase s = map toLowerCase_char s"

definition toUpperCase_char :: "char \<Rightarrow> char" where
  "toUpperCase_char c =
     (let n = (of_char c :: nat) in if 97 \<le> n \<and> n \<le> 122 then char_of (n - 32) else c)"

definition toUpperCase :: "string \<Rightarrow> string" where
  "toUpperCase s = map toUpperCase_char s"

definition isWhiteSpace :: "char \<Rightarrow> bool" where
  "isWhiteSpace c = ((of_char c :: nat) \<in> {9, 10, 11, 12, 13, 32})"

definition trim :: "string \<Rightarrow> string" where
  "trim s = rev (dropWhile isWhiteSpace (rev (dropWhile isWhiteSpace s)))"

text \<open>\<open>s.includes(t)\<close>: \<open>t\<close> occurs in \<open>s\<close> at some position (the empty \<open>t\<close> always does).\<close>

fun js_includes :: "string \<Rightarrow> string \<Rightarrow> bool" where
  "js_includes [] t = (t = [])"
| "js_includes (c # cs) t = (prefix t (c # cs) \<or> js_includes cs t)"

text \<open>\<open>s.substring(0, n)\<close>: the first \<open>n\<close> code units, or all of \<open>s\<close> when it is shorter.\<close>

definition substring0 :: "string \<Rightarrow> nat \<Rightarrow> string" where
  "substring0 s n = take n s"

text \<open>A value interpolated into a template literal; \<open>undefined\<close> prints as its name.\<close>

definition interpolate :: "string option \<Rightarrow> string" where
  "interpolate v = (case v of None \<Rightarrow> ''undefined'' | Some s \<Rightarrow> s)"

text \<open>The substring relation in the words of the specification.\<close>

definition is_substring :: "string \<Rightarrow> string \<Rightarrow> bool" where
  "is_substring t s = (\<exists>p q. s = p @ t @ q)"


section \<open>The student dashboard (src/pages/StudentDashboard.tsx)\<close>

subsection \<open>Component state\<close>

text \<open>
  \<open>BusSchedule\<close> as \<open>fetchData\<close> builds it from a database row. The optional columns
  are \<open>option\<close>s; \<open>scheduleType\<close> is the string the row carries.
\<close>

record BusSchedule =
  bs_id :: string
  time :: string
  startingPoint :: string
  route :: string
  endPoint :: string
  direction :: string
  bs_gender :: "string option"
  busType :: "string option"
  remarks :: "string option"
  bs_description :: "string option"
  scheduleType :: string

datatype filter_type = FilterAll | FilterRegular | FilterFriday

datatype complaint_category =
  Delay | Safety | DriverBehavior | BusCondition | RouteIssue | OtherCategory

datatype complaint_priority = Low | Medium | High | Urgent

record complaintForm =
  title :: string
  description :: string
  category :: complaint_category
  priority :: complaint_priority
  bus_route :: string
  incident_time :: string

text \<open>
  The \<open>useState\<close> cells the modelled handlers read or write. The feedback and profile
  cells, and the feedback and complaint lists that \<open>fetchData\<close> also refreshes, are
  touched by none of the code modelled here and are left out.
\<close>

record dashboard_state =
  schedules :: "BusSchedule list"
  loading :: bool
  searchTerm :: string
  filterType :: filter_type
  showComplaintForm :: bool
  complaintForm :: complaintForm
  complaintLoading :: bool
  complaintSuccess :: string
  complaintError :: string


subsection \<open>filteredSchedules\<close>

definition matchesSearch :: "string \<Rightarrow> BusSchedule \<Rightarrow> bool" where
  "matchesSearch term schedule =
     (term = '''' \<or>
      js_includes (toLowerCase (time schedule)) (toLowerCase term) \<or>
      js_includes (toLowerCase (startingPoint schedule)) (toLowerCase term) \<or>
      js_includes (toLowerCase (route schedule)) (toLowerCase term) \<or>
      js_includes (toLowerCase (endPoint schedule)) (toLowerCase term))"

definition matchesFilter :: "filter_type \<Rightarrow> BusSchedule \<Rightarrow> bool" where
  "matchesFilter ft schedule =
     (ft = FilterAll \<or>
      (ft = FilterRegular \<and> scheduleType schedule = ''Regular'') \<or>
      (ft = FilterFriday \<and> scheduleType schedule = ''Friday''))"

text \<open>
  The arrow function handed to \<open>schedules.filter\<close>. It reads \<open>searchTerm\<close> and
  \<open>filterType\<close> from the enclosing render and assigns to nothing, so the state it is
  given comes back as it was.
\<close>

definition filter_callback :: "dashboard_state \<Rightarrow> BusSchedule \<Rightarrow> dashboard_state \<times> bool" where
  "filter_callback st schedule =
     (st, matchesSearch (searchTerm st) schedule \<and> matchesFilter (filterType st) schedule)"

text \<open>
  \<open>Array.prototype.filter\<close>: the length is read once, the indices \<open>0 .. len - 1\<close> are
  visited in order, an index that is no longer present is skipped, and the elements the
  callback accepts are appended to a fresh array.
\<close>

function filter_loop ::
  "nat \<Rightarrow> nat \<Rightarrow> dashboard_state \<Rightarrow> BusSchedule list \<Rightarrow> dashboard_state \<times> BusSchedule list"
where
  "filter_loop len k st acc =
     (if k < len then
        (if k < length (schedules st) then
           (let schedule = schedules st ! k;
                (st', keep) = filter_callback st schedule
            in filter_loop len (Suc k) st' (if keep then acc @ [schedule] else acc))
         else filter_loop len (Suc k) st acc)
      else (st, acc))"
  by pat_completeness auto
termination
  by (relation "measure (\<lambda>(len, k, st, acc). len - k)") auto

declare filter_loop.simps [simp del]

definition filteredSchedules :: "dashboard_state \<Rightarrow> dashboard_state \<times> BusSchedule list" where
  "filteredSchedules st = filter_loop (length (schedules st)) 0 st []"

text \<open>The two conditions of the specification, in its words.\<close>

definition search_matches :: "string \<Rightarrow> BusSchedule \<Rightarrow> bool" where
  "search_matches term s =
     (term = [] \<or>
      is_substring (toLowerCase term) (toLowerCase (time s)) \<or>
      is_substring (toLowerCase term) (toLowerCase (startingPoint s)) \<or>
      is_substring (toLowerCase term) (toLowerCase (route s)) \<or>
      is_substring (toLowerCase term) (toLowerCase (endPoint s)))"

definition category_matches :: "filter_type \<Rightarrow> BusSchedule \<Rightarrow> bool" where
  "category_matches ft s =
     (case ft of
        FilterAll \<Rightarrow> True
      | FilterRegular \<Rightarrow> scheduleType s = ''Regular''
      | FilterFriday \<Rightarrow> scheduleType s = ''Friday'')"


subsection \<open>What a call to the backend comes back with\<close>

text \<open>
  An error object of the SDK (or any thrown value): the handlers read its \<open>code\<close> and
  its \<open>message\<close>, either of which may be missing. A query resolves to \<open>{data, error}\<close>;
  the promise of any call may instead reject, which \<open>await\<close> turns into a throw.
\<close>

record js_error =
  code :: "string option"
  message :: "string option"

datatype 'a response = Response (resp_data: "'a option") (resp_error: "js_error option")

datatype 'a promise = Resolved 'a | Rejected js_error


subsection \<open>fetchData and handleComplaintSubmit\<close>

text \<open>
  \<open>fetchData\<close> catches whatever its queries throw, so it always completes. Of the cells
  modelled it replaces \<open>schedules\<close> when the schedule query succeeded (its rows taken as
  already converted) and leaves \<open>loading\<close> cleared at the end.
\<close>

datatype fetch_outcome = Fetched "BusSchedule list" | FetchFailed

definition fetchData :: "fetch_outcome \<Rightarrow> dashboard_state \<Rightarrow> dashboard_state" where
  "fetchData r st =
     (case r of
        Fetched rows \<Rightarrow> st\<lparr>schedules := rows, loading := False\<rparr>
      | FetchFailed \<Rightarrow> st\<lparr>loading := False\<rparr>)"

text \<open>The object handed to \<open>supabase.from('complaints').insert([...])\<close>.\<close>

record complaint_row =
  row_user_id :: "string option"
  row_title :: string
  row_description :: string
  row_category :: complaint_category
  row_priority :: complaint_priority
  row_bus_route :: "string option"
  row_incident_time :: "string option"

text \<open>\<open>s || null\<close> for a string \<open>s\<close>: the empty string is falsy.\<close>

definition or_null :: "string \<Rightarrow> string option" where
  "or_null s = (if s = '''' then None else Some s)"

definition emptyComplaintForm :: complaintForm where
  "emptyComplaintForm =
     \<lparr>title = '''', description = '''', category = OtherCategory, priority = Medium,
      bus_route = '''', incident_time = ''''\<rparr>"

definition complaintRow :: "string option \<Rightarrow> complaintForm \<Rightarrow> complaint_row" where
  "complaintRow userId form =
     \<lparr>row_user_id = userId,
      row_title = trim (title form),
      row_description = trim (description form),
      row_category = category form,
      row_priority = priority form,
      row_bus_route = or_null (trim (bus_route form)),
      row_incident_time = or_null (trim (incident_time form))\<rparr>"

text \<open>
  \<open>handleComplaintSubmit\<close>, given what the insert and the refresh come back with and
  \<open>userProfile?.id\<close>. It returns the state once the handler has finished and the rows it
  handed to \<open>insert\<close> (none, or one). The timer that clears the success message five
  seconds later is not part of the handler's run and is not modelled.
\<close>

definition handleComplaintSubmit ::
  "(complaint_row \<Rightarrow> 'd response promise) \<Rightarrow> fetch_outcome \<Rightarrow> string option \<Rightarrow>
   dashboard_state \<Rightarrow> dashboard_state \<times> complaint_row list"
where
  "handleComplaintSubmit insertRow refresh userId st0 =
     (let st = st0\<lparr>complaintError := '''', complaintSuccess := ''''\<rparr>;
          form = complaintForm st0
      in
        if trim (title form) = '''' then
          (st\<lparr>complaintError := ''Please provide a title for your complaint''\<rparr>, [])
        else if trim (description form) = '''' then
          (st\<lparr>complaintError := ''Please provide a detailed description of the issue''\<rparr>, [])
        else if length (trim (description form)) < 10 then
          (st\<lparr>complaintError :=
              ''Please provide a more detailed description (at least 10 characters)''\<rparr>, [])
        else
          (let st1 = st\<lparr>complaintLoading := True\<rparr>;
               row = complaintRow userId form
           in case insertRow row of
                Rejected err \<Rightarrow>
                  (st1\<lparr>complaintError := ''An unexpected error occurred. Please try again.'',
                       complaintLoading := False\<rparr>, [row])
              | Resolved r \<Rightarrow>
                  (case resp_error r of
                     Some err \<Rightarrow>
                       (st1\<lparr>complaintError :=
                              ''Failed to submit complaint: '' @ interpolate (message err),
                            complaintLoading := False\<rparr>, [row])
                   | None \<Rightarrow>
                       (let st2 = st1\<lparr>complaintForm := emptyComplaintForm,
                                       complaintSuccess :=
                                         ''Your complaint has been submitted successfully! We will review it and get back to you soon.'',
                                       showComplaintForm := False\<rparr>;
                            st3 = fetchData refresh st2
                        in (st3\<lparr>complaintLoading := False\<rparr>, [row])))))"

text \<open>The checks that make the handler return before the insert.\<close>

definition rejectedByValidation :: "complaintForm \<Rightarrow> bool" where
  "rejectedByValidation form =
     (trim (title form) = [] \<or> trim (description form) = [] \<or>
      length (trim (description form)) < 10)"


section \<open>The Supabase wrapper (src/lib/supabase.ts)\<close>

subsection \<open>Configuration and the auth client\<close>

text \<open>
  \<open>import.meta.env.VITE_SUPABASE_URL\<close> and \<open>VITE_SUPABASE_ANON_KEY\<close>: either may be
  undefined, and \<open>!v\<close> holds of an undefined or empty value.
\<close>

record env =
  supabaseUrl :: "string option"
  supabaseAnonKey :: "string option"

definition falsy :: "string option \<Rightarrow> bool" where
  "falsy v = (case v of None \<Rightarrow> True | Some s \<Rightarrow> s = '''')"

definition notConfigured :: "env \<Rightarrow> bool" where
  "notConfigured e =
     (falsy (supabaseUrl e) \<or> falsy (supabaseAnonKey e) \<or>
      supabaseUrl e = Some ''https://placeholder.supabase.co'')"

text \<open>
  The auth client as \<open>signInWithGoogle\<close> sees it: what the \<open>n\<close>-th call of
  \<open>supabase.auth.signInWithOAuth\<close> comes back with, and how many calls were made so far.
\<close>

record 'd auth_client =
  oauth_response :: "nat \<Rightarrow> 'd response promise"
  oauth_calls :: nat

definition signInWithOAuth :: "'d auth_client \<Rightarrow> 'd response promise \<times> 'd auth_client" where
  "signInWithOAuth c = (oauth_response c (oauth_calls c), c\<lparr>oauth_calls := Suc (oauth_calls c)\<rparr>)"

text \<open>\<open>error.message?.includes(t)\<close>: undefined, hence falsy, when there is no message.\<close>

definition message_includes :: "js_error \<Rightarrow> string \<Rightarrow> bool" where
  "message_includes err t = (case message err of None \<Rightarrow> False | Some m \<Rightarrow> js_includes m t)"

text \<open>The object a sign-in returns: \<open>{ data?, error?, needsSetup? }\<close>.\<close>

record 'd sign_in_result =
  data :: "'d option"
  error :: "js_error option"
  needsSetup :: "bool option"

text \<open>\<open>{ error: { message: m }, needsSetup: true }\<close> and \<open>{ error: { message: m } }\<close>.\<close>

definition setup_error :: "string \<Rightarrow> 'd sign_in_result" where
  "setup_error m =
     \<lparr>data = None, error = Some \<lparr>code = None, message = Some m\<rparr>, needsSetup = Some True\<rparr>"

definition plain_error :: "string \<Rightarrow> 'd sign_in_result" where
  "plain_error m =
     \<lparr>data = None, error = Some \<lparr>code = None, message = Some m\<rparr>, needsSetup = None\<rparr>"


subsection \<open>signInWithGoogle\<close>

text \<open>
  The body of the \<open>try\<close> block of \<open>signInWithGoogle\<close> in src/lib/supabase.ts: \<open>Inl\<close> is
  a value thrown inside it, \<open>Inr\<close> the object it returns.
\<close>

definition signInWithGoogle_try ::
  "env \<Rightarrow> 'd auth_client \<Rightarrow> (js_error + 'd sign_in_result) \<times> 'd auth_client"
where
  "signInWithGoogle_try e c =
     (if notConfigured e then
        (Inr (setup_error
           ''Supabase is not properly configured. Please contact the administrator.''), c)
      else
        (case signInWithOAuth c of
           (Rejected thrown, c') \<Rightarrow> (Inl thrown, c')
         | (Resolved r, c') \<Rightarrow>
             (case resp_error r of
                Some err \<Rightarrow>
                  (if message_includes err ''not enabled'' \<or> message_includes err ''provider'' then
                     (Inr (setup_error
                        ''Google Sign-In is not enabled in Supabase. Please contact the administrator to enable the Google OAuth provider in the Supabase dashboard.''), c')
                   else if message_includes err ''redirect'' \<or> message_includes err ''url'' then
                     (Inr (setup_error
                        ''Google Sign-In redirect URL is not configured properly. Please contact the administrator to add the correct redirect URLs in Supabase.''), c')
                   else if message_includes err ''client_id'' \<or> message_includes err ''client'' then
                     (Inr (setup_error
                        ''Google OAuth client is not configured. Please contact the administrator to set up Google OAuth credentials in Supabase.''), c')
                   else if message_includes err ''unauthorized'' \<or> message_includes err ''invalid'' then
                     (Inr (setup_error
                        ''Google OAuth configuration is invalid. Please contact the administrator to verify the Google OAuth settings.''), c')
                   else
                     (Inr (plain_error
                        (''Google Sign-In failed: '' @ interpolate (message err) @
                         ''. Please try again or contact support if the issue persists.'')), c'))
              | None \<Rightarrow> (Inr \<lparr>data = resp_data r, error = None, needsSetup = None\<rparr>, c'))))"

text \<open>
  \<open>signInWithGoogle\<close>: the \<open>catch\<close> clause turns whatever the body throws into a returned
  object. \<open>Inl\<close> would be an exception reaching the caller.
\<close>

definition signInWithGoogle ::
  "env \<Rightarrow> 'd auth_client \<Rightarrow> (js_error + 'd sign_in_result) \<times> 'd auth_client"
where
  "signInWithGoogle e c =
     (case signInWithGoogle_try e c of
        (Inl thrown, c') \<Rightarrow>
          (Inr (plain_error
             ''An unexpected error occurred with Google Sign-In. Please try again or use email/password login.''), c')
      | (Inr r, c') \<Rightarrow> (Inr r, c'))"


section \<open>The wrapper with profile creation (src/unnamed/part_001)\<close>

subsection \<open>signInWithGoogle, as that file has it\<close>

definition signInWithGoogle_try_part_001 ::
  "env \<Rightarrow> 'd auth_client \<Rightarrow> (js_error + 'd sign_in_result) \<times> 'd auth_client"
where
  "signInWithGoogle_try_part_001 e c =
     (if notConfigured e then
        (Inr (setup_error
           ''Supabase is not properly configured. Please contact the administrator.''), c)
      else
        (case signInWithOAuth c of
           (Rejected thrown, c') \<Rightarrow> (Inl thrown, c')
         | (Resolved r, c') \<Rightarrow>
             (case resp_error r of
                Some err \<Rightarrow>
                  (if message_includes err ''not enabled'' \<or> message_includes err ''provider'' then
                     (Inr (setup_error
                        ''Google Sign-In is not enabled. Please contact the administrator to enable Google OAuth in Supabase.''), c')
                   else if message_includes err ''redirect'' \<or> message_includes err ''url'' then
                     (Inr (setup_error
                        ''Google Sign-In redirect URL is not configured properly. Please contact the administrator.''), c')
                   else if message_includes err ''client_id'' \<or> message_includes err ''client'' then
                     (Inr (setup_error
                        ''Google OAuth client is not configured. Please contact the administrator.''), c')
                   else
                     (Inr (plain_error
                        (''Google Sign-In failed: '' @ interpolate (message err) @
                         ''. Please try again or contact support.'')), c'))
              | None \<Rightarrow> (Inr \<lparr>data = resp_data r, error = None, needsSetup = None\<rparr>, c'))))"

definition signInWithGoogle_part_001 ::
  "env \<Rightarrow> 'd auth_client \<Rightarrow> (js_error + 'd sign_in_result) \<times> 'd auth_client"
where
  "signInWithGoogle_part_001 e c =
     (case signInWithGoogle_try_part_001 e c of
        (Inl thrown, c') \<Rightarrow>
          (Inr (plain_error
             ''An unexpected error occurred with Google Sign-In. Please try again or use email/password login.''), c')
      | (Inr r, c') \<Rightarrow> (Inr r, c'))"


subsection \<open>The classification of OAuth failures, in the words of the specification\<close>

text \<open>An error whose message contains \<open>t\<close>.\<close>

definition mentions :: "js_error \<Rightarrow> string \<Rightarrow> bool" where
  "mentions err t = (\<exists>m. message err = Some m \<and> is_substring t m)"

text \<open>
  The explanation selected for an error of the OAuth call: the checks in their order, each
  with its static text and \<open>needsSetup\<close>, and the generic failure, without \<open>needsSetup\<close>,
  for an error that matches none. The first follows src/lib/supabase.ts, the second the
  shorter chain of src/unnamed/part_001.
\<close>

definition explanation :: "js_error \<Rightarrow> 'd sign_in_result" where
  "explanation err =
     (if mentions err ''not enabled'' \<or> mentions err ''provider'' then
        setup_error
          ''Google Sign-In is not enabled in Supabase. Please contact the administrator to enable the Google OAuth provider in the Supabase dashboard.''
      else if mentions err ''redirect'' \<or> mentions err ''url'' then
        setup_error
          ''Google Sign-In redirect URL is not configured properly. Please contact the administrator to add the correct redirect URLs in Supabase.''
      else if mentions err ''client_id'' \<or> mentions err ''client'' then
        setup_error
          ''Google OAuth client is not configured. Please contact the administrator to set up Google OAuth credentials in Supabase.''
      else if mentions err ''unauthorized'' \<or> mentions err ''invalid'' then
        setup_error
          ''Google OAuth configuration is invalid. Please contact the administrator to verify the Google OAuth settings.''
      else
        plain_error
          (''Google Sign-In failed: '' @ interpolate (message err) @
           ''. Please try again or contact support if the issue persists.''))"

definition explanation_part_001 :: "js_error \<Rightarrow> 'd sign_in_result" where
  "explanation_part_001 err =
     (if mentions err ''not enabled'' \<or> mentions err ''provider'' then
        setup_error
          ''Google Sign-In is not enabled. Please contact the administrator to enable Google OAuth in Supabase.''
      else if mentions err ''redirect'' \<or> mentions err ''url'' then
        setup_error
          ''Google Sign-In redirect URL is not configured properly. Please contact the administrator.''
      else if mentions err ''client_id'' \<or> mentions err ''client'' then
        setup_error ''Google OAuth client is not configured. Please contact the administrator.''
      else
        plain_error
          (''Google Sign-In failed: '' @ interpolate (message err) @
           ''. Please try again or contact support.''))"



subsection \<open>The session and the users table\<close>

text \<open>
  The user object of a session, as \<open>createUserProfileFromGoogle\<close> reads it: \<open>id\<close>,
  \<open>email\<close>, and \<open>user_metadata\<close> with its \<open>full_name\<close> and \<open>name\<close>, each of which may
  be missing.
\<close>

record google_metadata =
  full_name :: "string option"
  md_name :: "string option"

record google_user =
  g_id :: string
  g_email :: "string option"
  user_metadata :: "google_metadata option"

record session =
  session_user :: "google_user option"

datatype gender = Male | Female

datatype user_role = Student | Teacher | Admin

text \<open>A row of the \<open>users\<close> table, with the columns the wrapper writes.\<close>

record user_row =
  u_id :: string
  u_email :: "string option"
  u_name :: string
  university_id :: string
  mobile :: string
  gender :: gender
  role :: user_role

text \<open>
  The backend as \<open>handleGoogleCallback\<close> sees it. \<open>users\<close> is the table, keyed by its
  primary key \<open>id\<close>. A lookup \<open>.eq('id', i).single()\<close> answers with the row, or with the
  error code PGRST116 when there is none; an insert adds the row, or answers with a
  duplicate-key error when the id is taken. Either query may instead fail for a reason of
  its own (\<open>Fails\<close>: an error in the answer; \<open>Throws\<close>: a rejected promise), as the fault
  cells say. \<open>calls\<close> records the queries that reached the table.
\<close>

datatype fault = NoFault | Fails js_error | Throws js_error

datatype db_call = SelectUser string | InsertUser user_row

record backend =
  users :: "string \<Rightarrow> user_row option"
  getSession_outcome :: "session response promise"
  select_fault :: fault
  insert_fault :: fault
  calls :: "db_call list"

definition no_rows_error :: js_error where
  "no_rows_error =
     \<lparr>code = Some ''PGRST116'',
      message = Some ''JSON object requested, multiple (or no) rows returned''\<rparr>"

definition duplicate_key_error :: js_error where
  "duplicate_key_error =
     \<lparr>code = Some ''23505'',
      message = Some ''duplicate key value violates unique constraint''\<rparr>"

definition select_user_single :: "backend \<Rightarrow> string \<Rightarrow> user_row response promise \<times> backend" where
  "select_user_single b i =
     (let b' = b\<lparr>calls := calls b @ [SelectUser i]\<rparr>
      in case select_fault b of
           Throws e \<Rightarrow> (Rejected e, b')
         | Fails e \<Rightarrow> (Resolved (Response None (Some e)), b')
         | NoFault \<Rightarrow>
             (case users b i of
                None \<Rightarrow> (Resolved (Response None (Some no_rows_error)), b')
              | Some row \<Rightarrow> (Resolved (Response (Some row) None), b')))"

definition insert_user_single :: "backend \<Rightarrow> user_row \<Rightarrow> user_row response promise \<times> backend" where
  "insert_user_single b row =
     (let b' = b\<lparr>calls := calls b @ [InsertUser row]\<rparr>
      in case insert_fault b of
           Throws e \<Rightarrow> (Rejected e, b')
         | Fails e \<Rightarrow> (Resolved (Response None (Some e)), b')
         | NoFault \<Rightarrow>
             (case users b (u_id row) of
                Some old \<Rightarrow> (Resolved (Response None (Some duplicate_key_error)), b')
              | None \<Rightarrow>
                  (Resolved (Response (Some row) None),
                   b'\<lparr>users := (users b)(u_id row := Some row)\<rparr>)))"


subsection \<open>createUserProfileFromGoogle\<close>

text \<open>\<open>a || d\<close> for an optional string \<open>a\<close>: undefined and the empty string are falsy.\<close>

definition or_else :: "string option \<Rightarrow> string \<Rightarrow> string" where
  "or_else a d = (case a of None \<Rightarrow> d | Some s \<Rightarrow> if s = '''' then d else s)"

text \<open>The \<open>profileData\<close> object the function builds from the user.\<close>

definition profileData :: "google_user \<Rightarrow> user_row" where
  "profileData u =
     (let googleData = (case user_metadata u of
                          None \<Rightarrow> \<lparr>full_name = None, md_name = None\<rparr>
                        | Some m \<Rightarrow> m);
          email = g_email u;
          fullName = or_else (full_name googleData) (or_else (md_name googleData) ''Google User'');
          tempUniversityId = ''GOOGLE_'' @ toUpperCase (substring0 (g_id u) 8)
      in \<lparr>u_id = g_id u,
          u_email = email,
          u_name = fullName,
          university_id = tempUniversityId,
          mobile = '''',
          gender = Male,
          role = Student\<rparr>)"

text \<open>The objects \<open>{ success, error? }\<close> and \<open>{ success, user?, error? }\<close>.\<close>

record op_result =
  success :: bool
  op_error :: "js_error option"

record callback_result = op_result +
  user :: "google_user option"

definition createUserProfileFromGoogle :: "google_user \<Rightarrow> backend \<Rightarrow> op_result \<times> backend" where
  "createUserProfileFromGoogle u b =
     (case insert_user_single b (profileData u) of
        (Rejected thrown, b') \<Rightarrow> (\<lparr>success = False, op_error = Some thrown\<rparr>, b')
      | (Resolved r, b') \<Rightarrow>
          (case resp_error r of
             Some err \<Rightarrow> (\<lparr>success = False, op_error = Some err\<rparr>, b')
           | None \<Rightarrow> (\<lparr>success = True, op_error = None\<rparr>, b')))"


subsection \<open>handleGoogleCallback\<close>

definition callback_failure :: "js_error \<Rightarrow> callback_result" where
  "callback_failure err = \<lparr>success = False, op_error = Some err, user = None\<rparr>"

definition no_session_error :: js_error where
  "no_session_error = \<lparr>code = None, message = Some ''No session found''\<rparr>"


text \<open>
  \<open>handleGoogleCallback\<close>. Every \<open>await\<close> sits inside the \<open>try\<close> block, so a rejected
  promise ends in the \<open>catch\<close> clause, which returns the failure object.
\<close>

definition handleGoogleCallback :: "backend \<Rightarrow> callback_result \<times> backend" where
  "handleGoogleCallback b =
     (case getSession_outcome b of
        Rejected thrown \<Rightarrow> (callback_failure thrown, b)
      | Resolved got \<Rightarrow>
          (case resp_error got of
             Some sessionError \<Rightarrow> (callback_failure sessionError, b)
           | None \<Rightarrow>
               (case resp_data got of
                  None \<Rightarrow> (callback_failure no_session_error, b)
                | Some sess \<Rightarrow>
                    (case session_user sess of
                       None \<Rightarrow> (callback_failure no_session_error, b)
                     | Some u \<Rightarrow>
                         (case select_user_single b (g_id u) of
                            (Rejected thrown, b1) \<Rightarrow> (callback_failure thrown, b1)
                          | (Resolved found, b1) \<Rightarrow>
                              (let ensureProfile =
                                     (case resp_data found of
                                        Some existingProfile \<Rightarrow>
                                          (\<lparr>success = True, op_error = None, user = Some u\<rparr>, b1)
                                      | None \<Rightarrow>
                                          (case createUserProfileFromGoogle u b1 of
                                             (created, b2) \<Rightarrow>
                                               if \<not> success created then
                                                 (\<lparr>success = False, op_error = op_error created,
                                                   user = None\<rparr>, b2)
                                               else
                                                 (\<lparr>success = True, op_error = None,
                                                   user = Some u\<rparr>, b2)))
                               in case resp_error found of
                                    None \<Rightarrow> ensureProfile
                                  | Some profileError \<Rightarrow>
                                      if code profileError \<noteq> Some ''PGRST116''
                                      then (callback_failure profileError, b1)
                                      else ensureProfile))))))"

text \<open>The metadata fields of a user, undefined when the user has no metadata at all.\<close>

definition metadata_full_name :: "google_user \<Rightarrow> string option" where
  "metadata_full_name u = (case user_metadata u of None \<Rightarrow> None | Some m \<Rightarrow> full_name m)"

definition metadata_name :: "google_user \<Rightarrow> string option" where
  "metadata_name u = (case user_metadata u of None \<Rightarrow> None | Some m \<Rightarrow> md_name m)"

text \<open>The session holds the user \<open>u\<close>, and fetching it gave no error.\<close>

definition signed_in :: "backend \<Rightarrow> google_user \<Rightarrow> bool" where
  "signed_in b u =
     (\<exists>sess. getSession_outcome b = Resolved (Response (Some sess) None) \<and>
             session_user sess = Some u)"


text \<open>
  What the profile lookup for the user answers, and \<open>profileError && profileError.code !==
  'PGRST116'\<close>: the answer carries an error other than "no rows".
\<close>

definition lookup :: "backend \<Rightarrow> google_user \<Rightarrow> user_row response promise" where
  "lookup b u = fst (select_user_single b (g_id u))"

definition lookup_failed :: "js_error option \<Rightarrow> bool" where
  "lookup_failed profileError =
     (case profileError of None \<Rightarrow> False | Some err \<Rightarrow> code err \<noteq> Some ''PGRST116'')"


section \<open>Example inputs\<close>

definition schedule_morning :: BusSchedule where
  "schedule_morning =
     \<lparr>bs_id = ''1'', time = ''7:30 AM'', startingPoint = ''BOT'', route = ''Muradpur - GEC'',
      endPoint = ''IIUC'', direction = ''CityToIIUC'', bs_gender = None, busType = None,
      remarks = None, bs_description = None, scheduleType = ''Regular''\<rparr>"

definition schedule_friday :: BusSchedule where
  "schedule_friday =
     \<lparr>bs_id = ''2'', time = ''8:00 AM'', startingPoint = ''Agrabad'', route = ''Boropool'',
      endPoint = ''IIUC'', direction = ''CityToIIUC'', bs_gender = Some ''Male'', busType = None,
      remarks = None, bs_description = None, scheduleType = ''Friday''\<rparr>"

definition dashboard_initial :: dashboard_state where
  "dashboard_initial =
     \<lparr>schedules = [schedule_morning, schedule_friday], loading = False, searchTerm = '''',
      filterType = FilterAll, showComplaintForm = False, complaintForm = emptyComplaintForm,
      complaintLoading = False, complaintSuccess = '''', complaintError = ''''\<rparr>"


definition complaint_short :: complaintForm where
  "complaint_short =
     \<lparr>title = ''Late bus'', description = ''too late'', category = Delay, priority = High,
      bus_route = '''', incident_time = ''''\<rparr>"

definition complaint_valid :: complaintForm where
  "complaint_valid =
     \<lparr>title = '' Late bus'', description = ''The 7:30 bus left 40 minutes late. '',
      category = Delay, priority = High, bus_route = ''BOT'', incident_time = ''''\<rparr>"

definition insert_accepts :: "complaint_row \<Rightarrow> unit response promise" where
  "insert_accepts row = Resolved (Response (Some ()) None)"

definition insert_refuses :: "complaint_row \<Rightarrow> unit response promise" where
  "insert_refuses row =
     Resolved (Response None
       (Some \<lparr>code = Some ''42501'', message = Some ''permission denied for table complaints''\<rparr>))"

definition insert_unreachable :: "complaint_row \<Rightarrow> unit response promise" where
  "insert_unreachable row = Rejected \<lparr>code = None, message = Some ''Failed to fetch''\<rparr>"


definition env_configured :: env where
  "env_configured =
     \<lparr>supabaseUrl = Some ''https://iiuc-bus.supabase.co'', supabaseAnonKey = Some ''anon-key''\<rparr>"


definition oauth_error :: "string \<Rightarrow> js_error" where
  "oauth_error m = \<lparr>code = None, message = Some m\<rparr>"

definition client_failing :: "string \<Rightarrow> unit auth_client" where
  "client_failing m =
     \<lparr>oauth_response = (\<lambda>n. Resolved (Response None (Some (oauth_error m)))), oauth_calls = 0\<rparr>"




definition google_user_full :: google_user where
  "google_user_full =
     \<lparr>g_id = ''a1b2c3d4-e5f6-7890-abcd-ef0123456789'',
      g_email = Some ''c221001@ugrad.iiuc.ac.bd'',
      user_metadata = Some \<lparr>full_name = Some ''Rahim Uddin'', md_name = Some ''Rahim''\<rparr>\<rparr>"

definition google_user_blank_names :: google_user where
  "google_user_blank_names =
     \<lparr>g_id = ''a1b2c3d4-e5f6-7890-abcd-ef0123456789'',
      g_email = Some ''c221001@ugrad.iiuc.ac.bd'',
      user_metadata = Some \<lparr>full_name = Some '''', md_name = Some ''''\<rparr>\<rparr>"

definition existing_row :: user_row where
  "existing_row =
     \<lparr>u_id = ''a1b2c3d4-e5f6-7890-abcd-ef0123456789'', u_email = Some ''c221001@ugrad.iiuc.ac.bd'',
      u_name = ''Rahim Uddin'', university_id = ''C221001'', mobile = ''01700000000'',
      gender = Male, role = Student\<rparr>"

definition permission_denied :: js_error where
  "permission_denied =
     \<lparr>code = Some ''42501'', message = Some ''permission denied for table users''\<rparr>"

definition backend_new_user :: backend where
  "backend_new_user =
     \<lparr>users = (\<lambda>i. None),
      getSession_outcome = Resolved (Response (Some \<lparr>session_user = Some google_user_full\<rparr>) None),
      select_fault = NoFault, insert_fault = NoFault, calls = []\<rparr>"

definition backend_known_user :: backend where
  "backend_known_user =
     \<lparr>users = (\<lambda>i. if i = ''a1b2c3d4-e5f6-7890-abcd-ef0123456789'' then Some existing_row else None),
      getSession_outcome = Resolved (Response (Some \<lparr>session_user = Some google_user_full\<rparr>) None),
      select_fault = NoFault, insert_fault = NoFault, calls = []\<rparr>"

definition backend_lookup_denied :: backend where
  "backend_lookup_denied =
     \<lparr>users = (\<lambda>i. None),
      getSession_outcome = Resolved (Response (Some \<lparr>session_user = Some google_user_full\<rparr>) None),
      select_fault = Fails permission_denied, insert_fault = NoFault, calls = []\<rparr>"

definition backend_signed_out :: backend where
  "backend_signed_out =
     \<lparr>users = (\<lambda>i. None), getSession_outcome = Resolved (Response None None),
      select_fault = NoFault, insert_fault = NoFault, calls = []\<rparr>"


definition backend_hidden_row :: backend where
  "backend_hidden_row =
     \<lparr>users = (\<lambda>i. if i = ''a1b2c3d4-e5f6-7890-abcd-ef0123456789'' then Some existing_row else None),
      getSession_outcome = Resolved (Response (Some \<lparr>session_user = Some google_user_full\<rparr>) None),
      select_fault = Fails no_rows_error, insert_fault = NoFault, calls = []\<rparr>"

definition backend_lookup_unreachable :: backend where
  "backend_lookup_unreachable =
     \<lparr>users = (\<lambda>i. None),
      getSession_outcome = Resolved (Response (Some \<lparr>session_user = Some google_user_full\<rparr>) None),
      select_fault = Throws \<lparr>code = None, message = Some ''Failed to fetch''\<rparr>,
      insert_fault = NoFault, calls = []\<rparr>"

definition backend_session_error :: backend where
  "backend_session_error =
     \<lparr>users = (\<lambda>i. None),
      getSession_outcome =
        Resolved (Response None (Some \<lparr>code = None, message = Some ''Invalid Refresh Token''\<rparr>)),
      select_fault = NoFault, insert_fault = NoFault, calls = []\<rparr>"


section \<open>Properties of schedule filtering\<close>

lemma js_includes_is_substring: "js_includes s t = is_substring t s"
proof (induction s)
  case Nil
  show ?case by (simp add: is_substring_def)
next
  case (Cons c cs)
  have "is_substring t (c # cs) = (prefix t (c # cs) \<or> is_substring t cs)"
    using sublist_Cons_right [of t c cs] by (simp add: is_substring_def sublist_def)
  with Cons show ?case by simp
qed

lemma matchesSearch_spec: "matchesSearch term s = search_matches term s"
  by (simp add: matchesSearch_def search_matches_def js_includes_is_substring)

lemma matchesFilter_spec: "matchesFilter ft s = category_matches ft s"
  by (cases ft) (simp_all add: matchesFilter_def category_matches_def)

lemma filter_loop_eq:
  "len = length (schedules st) \<Longrightarrow> k \<le> len \<Longrightarrow>
   filter_loop len k st acc =
     (st, acc @ filter (\<lambda>s. matchesSearch (searchTerm st) s \<and> matchesFilter (filterType st) s)
                  (drop k (schedules st)))"
proof (induction len k st acc rule: filter_loop.induct)
  case (1 len k st acc)
  show ?case
  proof (cases "k < len")
    case False
    with "1.prems" show ?thesis by (subst filter_loop.simps) simp
  next
    case True
    with "1.prems" have inb: "k < length (schedules st)" by simp
    have dr: "drop k (schedules st) = schedules st ! k # drop (Suc k) (schedules st)"
      using inb by (simp add: Cons_nth_drop_Suc)
    have cb: "filter_callback st (schedules st ! k) =
        (st, matchesSearch (searchTerm st) (schedules st ! k)
             \<and> matchesFilter (filterType st) (schedules st ! k))"
      by (simp add: filter_callback_def)
    let ?acc' = "if matchesSearch (searchTerm st) (schedules st ! k)
                     \<and> matchesFilter (filterType st) (schedules st ! k)
                  then acc @ [schedules st ! k] else acc"
    have ih: "filter_loop len (Suc k) st ?acc' =
        (st, ?acc' @ filter (\<lambda>s. matchesSearch (searchTerm st) s \<and> matchesFilter (filterType st) s)
                       (drop (Suc k) (schedules st)))"
    proof -
      have "Suc k \<le> len" using True by simp
      then show ?thesis
        using "1.IH"(1) [OF True inb refl cb [symmetric] refl "1.prems"(1)] by simp
    qed
    have "filter_loop len k st acc = filter_loop len (Suc k) st ?acc'"
      using True inb by (subst filter_loop.simps) (simp add: cb Let_def)
    then show ?thesis
      by (simp add: ih dr)
  qed
qed

lemma filteredSchedules_eq:
  "filteredSchedules st =
     (st, filter (\<lambda>s. matchesSearch (searchTerm st) s \<and> matchesFilter (filterType st) s)
            (schedules st))"
  by (simp add: filteredSchedules_def filter_loop_eq)

lemma toLowerCase_examples:
  "toLowerCase ''GEC'' = ''gec''"
  "toLowerCase ''7:30 AM'' = ''7:30 am''"
  "toLowerCase ''BOT'' = ''bot''"
  "toLowerCase ''Muradpur - GEC'' = ''muradpur - gec''"
  "toLowerCase ''IIUC'' = ''iiuc''"
  "toLowerCase ''8:00 AM'' = ''8:00 am''"
  "toLowerCase ''Agrabad'' = ''agrabad''"
  "toLowerCase ''Boropool'' = ''boropool''"
  by code_simp+

text \<open>
  Claim C1. For every schedule list, search term and filter type, the filtered list holds
  exactly the schedules, in their order, that match the search (the term is empty, or the
  lower-cased term is a substring of the lower-cased \<open>time\<close>, \<open>startingPoint\<close>, \<open>route\<close> or
  \<open>endPoint\<close>) and match the category (all; regular with \<open>scheduleType\<close> Regular; friday
  with \<open>scheduleType\<close> Friday).
\<close>

theorem filteredSchedules_exact:
  "snd (filteredSchedules st) =
     filter (\<lambda>s. search_matches (searchTerm st) s \<and> category_matches (filterType st) s)
       (schedules st)"
  by (simp add: filteredSchedules_eq matchesSearch_spec matchesFilter_spec)

theorem filteredSchedules_exact_witness:
  "snd (filteredSchedules (dashboard_initial\<lparr>searchTerm := ''GEC'', filterType := FilterRegular\<rparr>))
     = [schedule_morning]"
  using filteredSchedules_exact
    [of "dashboard_initial\<lparr>searchTerm := ''GEC'', filterType := FilterRegular\<rparr>"]
  by (simp add: dashboard_initial_def schedule_morning_def schedule_friday_def
        search_matches_def category_matches_def js_includes_is_substring [symmetric]
        toLowerCase_examples)

text \<open>
  Claim C2. With the filter type friday, whatever the schedule list and the search term,
  every schedule of the filtered list has \<open>scheduleType\<close> Friday.
\<close>

theorem friday_filter_only_friday:
  "filterType st = FilterFriday \<Longrightarrow>
   \<forall>s \<in> set (snd (filteredSchedules st)). scheduleType s = ''Friday''"
  by (simp add: filteredSchedules_eq matchesFilter_def)

theorem friday_filter_only_friday_witness:
  "filterType (dashboard_initial\<lparr>filterType := FilterFriday\<rparr>) = FilterFriday \<and>
   snd (filteredSchedules (dashboard_initial\<lparr>filterType := FilterFriday\<rparr>)) = [schedule_friday] \<and>
   scheduleType schedule_friday = ''Friday''"
  using friday_filter_only_friday [of "dashboard_initial\<lparr>filterType := FilterFriday\<rparr>"]
  by (simp add: filteredSchedules_eq dashboard_initial_def schedule_morning_def
        schedule_friday_def matchesSearch_def matchesFilter_def)

text \<open>
  Claim C7. Filtering is pure, stateless and total: the loop ends on every state and hands
  the state back as it was (no cell, and so neither the schedule list nor a record in it,
  is changed), with at most as many results as schedules; and two runs on states with the
  same schedule list, search term and filter type give the same list, whatever else the
  states hold.
\<close>

theorem filteredSchedules_pure_total:
  "(\<exists>r. filteredSchedules st = (st, r) \<and> length r \<le> length (schedules st)) \<and>
   (schedules st' = schedules st \<and> searchTerm st' = searchTerm st \<and>
    filterType st' = filterType st
      \<longrightarrow> snd (filteredSchedules st') = snd (filteredSchedules st))"
  by (simp add: filteredSchedules_eq)

theorem filteredSchedules_pure_total_witness:
  "filteredSchedules (dashboard_initial\<lparr>filterType := FilterRegular\<rparr>)
     = (dashboard_initial\<lparr>filterType := FilterRegular\<rparr>, [schedule_morning]) \<and>
   snd (filteredSchedules (dashboard_initial\<lparr>filterType := FilterRegular, loading := True,
                              complaintError := ''x''\<rparr>)) = [schedule_morning]"
  using filteredSchedules_pure_total
    [of "dashboard_initial\<lparr>filterType := FilterRegular\<rparr>"
        "dashboard_initial\<lparr>filterType := FilterRegular, loading := True,
                             complaintError := ''x''\<rparr>"]
  by (simp add: filteredSchedules_eq dashboard_initial_def schedule_morning_def
        schedule_friday_def matchesSearch_def matchesFilter_def)

text \<open>
  Claim C8. With an empty search term and the filter type all, the filtered list is the
  schedule list itself, element for element and in the same order; and for every search
  term and filter type the filtered list is a subsequence of the schedule list.
\<close>

theorem filteredSchedules_identity_subseq:
  "(searchTerm st = '''' \<and> filterType st = FilterAll
      \<longrightarrow> snd (filteredSchedules st) = schedules st) \<and>
   subseq (snd (filteredSchedules st)) (schedules st)"
  by (simp add: filteredSchedules_eq matchesSearch_def matchesFilter_def)

theorem filteredSchedules_identity_subseq_witness:
  "searchTerm dashboard_initial = '''' \<and> filterType dashboard_initial = FilterAll \<and>
   snd (filteredSchedules dashboard_initial) = [schedule_morning, schedule_friday] \<and>
   subseq (snd (filteredSchedules dashboard_initial)) [schedule_morning, schedule_friday]"
  using filteredSchedules_identity_subseq [of dashboard_initial]
  by (simp add: dashboard_initial_def)

section \<open>Properties of the complaint form\<close>

lemma handleComplaintSubmit_accepted:
  "\<not> rejectedByValidation (complaintForm st) \<Longrightarrow>
   handleComplaintSubmit ins refresh uid st =
     (case ins (complaintRow uid (complaintForm st)) of
        Rejected err \<Rightarrow>
          (st\<lparr>complaintError := ''An unexpected error occurred. Please try again.'',
              complaintSuccess := '''', complaintLoading := False\<rparr>,
           [complaintRow uid (complaintForm st)])
      | Resolved r \<Rightarrow>
          (case resp_error r of
             Some err \<Rightarrow>
               (st\<lparr>complaintError := ''Failed to submit complaint: '' @ interpolate (message err),
                   complaintSuccess := '''', complaintLoading := False\<rparr>,
                [complaintRow uid (complaintForm st)])
           | None \<Rightarrow>
               ((fetchData refresh
                  (st\<lparr>complaintError := '''', complaintLoading := True,
                      complaintForm := emptyComplaintForm,
                      complaintSuccess :=
                        ''Your complaint has been submitted successfully! We will review it and get back to you soon.'',
                      showComplaintForm := False\<rparr>))\<lparr>complaintLoading := False\<rparr>,
                [complaintRow uid (complaintForm st)])))"
  by (simp add: handleComplaintSubmit_def rejectedByValidation_def Let_def
        split: promise.split option.split)

lemma handleComplaintSubmit_rejected:
  "rejectedByValidation (complaintForm st) \<Longrightarrow>
   handleComplaintSubmit ins refresh uid st =
     (st\<lparr>complaintError :=
           (if trim (title (complaintForm st)) = [] then
              ''Please provide a title for your complaint''
            else if trim (description (complaintForm st)) = [] then
              ''Please provide a detailed description of the issue''
            else ''Please provide a more detailed description (at least 10 characters)''),
         complaintSuccess := ''''\<rparr>, [])"
proof -
  assume "rejectedByValidation (complaintForm st)"
  then consider
      (no_title) "trim (title (complaintForm st)) = []"
    | (no_description) "trim (title (complaintForm st)) \<noteq> []"
        "trim (description (complaintForm st)) = []"
    | (too_short) "trim (title (complaintForm st)) \<noteq> []"
        "trim (description (complaintForm st)) \<noteq> []"
        "length (trim (description (complaintForm st))) < 10"
    unfolding rejectedByValidation_def by blast
  then show ?thesis
    by cases (simp_all add: handleComplaintSubmit_def Let_def)
qed

lemma fetchData_complaintForm: "complaintForm (fetchData r st) = complaintForm st"
  by (simp add: fetchData_def split: fetch_outcome.split)

lemma trim_examples:
  "trim ''Late bus'' = ''Late bus''" "trim ''too late'' = ''too late''"
  "trim '' Late bus'' = ''Late bus''"
  "trim ''The 7:30 bus left 40 minutes late. '' = ''The 7:30 bus left 40 minutes late.''"
  "trim ''BOT'' = ''BOT''" "trim '''' = ''''"
  by (simp_all add: trim_def isWhiteSpace_def)

text \<open>
  Claim C3 as stated says that only an empty title or description is rejected. A form with
  the title \<open>Late bus\<close> and the description \<open>too late\<close> has neither empty, and is
  rejected by the length check without an insert.
\<close>

theorem complaint_short_description_counterexample:
  "trim (title complaint_short) \<noteq> '''' \<and> trim (description complaint_short) \<noteq> '''' \<and>
   snd (handleComplaintSubmit insert_accepts FetchFailed (Some ''u1'')
          (dashboard_initial\<lparr>complaintForm := complaint_short\<rparr>)) = [] \<and>
   complaintError (fst (handleComplaintSubmit insert_accepts FetchFailed (Some ''u1'')
          (dashboard_initial\<lparr>complaintForm := complaint_short\<rparr>))) =
     ''Please provide a more detailed description (at least 10 characters)''"
  by (simp add: handleComplaintSubmit_def complaint_short_def dashboard_initial_def Let_def
        trim_examples)

text \<open>
  Claim C3, as the code has it. \<open>handleComplaintSubmit\<close> returns before the insert exactly
  when the title is empty after trimming, the description is empty after trimming, or the
  trimmed description is shorter than 10 characters; it then sets an error message. Every
  other form is handed to \<open>insert\<close>, once, as the row built from it.
\<close>

theorem handleComplaintSubmit_validation:
  "(snd (handleComplaintSubmit ins refresh uid st) = [] \<longleftrightarrow>
      rejectedByValidation (complaintForm st)) \<and>
   (rejectedByValidation (complaintForm st) \<longrightarrow>
      complaintError (fst (handleComplaintSubmit ins refresh uid st)) \<noteq> '''') \<and>
   (\<not> rejectedByValidation (complaintForm st) \<longrightarrow>
      snd (handleComplaintSubmit ins refresh uid st) = [complaintRow uid (complaintForm st)])"
proof (cases "rejectedByValidation (complaintForm st)")
  case True
  from handleComplaintSubmit_rejected [OF True, of ins refresh uid]
  show ?thesis using True by auto
next
  case False
  have "snd (handleComplaintSubmit ins refresh uid st) = [complaintRow uid (complaintForm st)]"
    by (simp add: handleComplaintSubmit_accepted [OF False] split: promise.split option.split)
  then show ?thesis using False by simp
qed

theorem handleComplaintSubmit_validation_witness:
  "\<not> rejectedByValidation complaint_valid \<and>
   snd (handleComplaintSubmit insert_accepts FetchFailed (Some ''u1'')
          (dashboard_initial\<lparr>complaintForm := complaint_valid\<rparr>)) =
     [\<lparr>row_user_id = Some ''u1'', row_title = ''Late bus'',
       row_description = ''The 7:30 bus left 40 minutes late.'', row_category = Delay,
       row_priority = High, row_bus_route = Some ''BOT'', row_incident_time = None\<rparr>] \<and>
   rejectedByValidation complaint_short \<and>
   snd (handleComplaintSubmit insert_accepts FetchFailed (Some ''u1'')
          (dashboard_initial\<lparr>complaintForm := complaint_short\<rparr>)) = []"
  using handleComplaintSubmit_validation
          [of insert_accepts FetchFailed "Some ''u1''" "dashboard_initial\<lparr>complaintForm := complaint_valid\<rparr>"]
        handleComplaintSubmit_validation
          [of insert_accepts FetchFailed "Some ''u1''" "dashboard_initial\<lparr>complaintForm := complaint_short\<rparr>"]
  by (simp add: rejectedByValidation_def complaint_valid_def complaint_short_def trim_examples
        complaintRow_def or_null_def)

text \<open>
  Claim C10. \<open>handleComplaintSubmit\<close> leaves the complaint form as it was when validation
  fails, when the insert answers with an error and when the insert throws; when the form
  passes validation and the insert answers without an error, the form is reset to its
  defaults (empty title, description, bus route and incident time, category other,
  priority medium).
\<close>

theorem handleComplaintSubmit_form_atomic:
  "(rejectedByValidation (complaintForm st) \<longrightarrow>
      complaintForm (fst (handleComplaintSubmit ins refresh uid st)) = complaintForm st) \<and>
   (ins (complaintRow uid (complaintForm st)) = Resolved (Response d (Some err)) \<longrightarrow>
      complaintForm (fst (handleComplaintSubmit ins refresh uid st)) = complaintForm st) \<and>
   (ins (complaintRow uid (complaintForm st)) = Rejected thrown \<longrightarrow>
      complaintForm (fst (handleComplaintSubmit ins refresh uid st)) = complaintForm st) \<and>
   (\<not> rejectedByValidation (complaintForm st) \<and>
    ins (complaintRow uid (complaintForm st)) = Resolved (Response d None) \<longrightarrow>
      complaintForm (fst (handleComplaintSubmit ins refresh uid st)) =
        \<lparr>title = '''', description = '''', category = OtherCategory, priority = Medium,
         bus_route = '''', incident_time = ''''\<rparr>)"
proof (cases "rejectedByValidation (complaintForm st)")
  case True
  from handleComplaintSubmit_rejected [OF True, of ins refresh uid]
  show ?thesis using True by auto
next
  case False
  show ?thesis
    using False
    by (simp add: handleComplaintSubmit_accepted [OF False] fetchData_complaintForm
          emptyComplaintForm_def split: promise.split option.split)
qed

theorem handleComplaintSubmit_form_atomic_witness:
  "complaintForm (fst (handleComplaintSubmit insert_refuses FetchFailed (Some ''u1'')
          (dashboard_initial\<lparr>complaintForm := complaint_valid\<rparr>))) = complaint_valid \<and>
   complaintForm (fst (handleComplaintSubmit insert_unreachable FetchFailed (Some ''u1'')
          (dashboard_initial\<lparr>complaintForm := complaint_valid\<rparr>))) = complaint_valid \<and>
   complaintForm (fst (handleComplaintSubmit insert_accepts FetchFailed (Some ''u1'')
          (dashboard_initial\<lparr>complaintForm := complaint_short\<rparr>))) = complaint_short \<and>
   complaintForm (fst (handleComplaintSubmit insert_accepts FetchFailed (Some ''u1'')
          (dashboard_initial\<lparr>complaintForm := complaint_valid\<rparr>))) = emptyComplaintForm"
  using handleComplaintSubmit_form_atomic
          [of "dashboard_initial\<lparr>complaintForm := complaint_valid\<rparr>" insert_refuses
              FetchFailed "Some ''u1''" None
              "\<lparr>code = Some ''42501'', message = Some ''permission denied for table complaints''\<rparr>"]
        handleComplaintSubmit_form_atomic
          [of "dashboard_initial\<lparr>complaintForm := complaint_valid\<rparr>" insert_unreachable
              FetchFailed "Some ''u1''" None _ "\<lparr>code = None, message = Some ''Failed to fetch''\<rparr>"]
        handleComplaintSubmit_form_atomic
          [of "dashboard_initial\<lparr>complaintForm := complaint_short\<rparr>" insert_accepts
              FetchFailed "Some ''u1''"]
        handleComplaintSubmit_form_atomic
          [of "dashboard_initial\<lparr>complaintForm := complaint_valid\<rparr>" insert_accepts
              FetchFailed "Some ''u1''" "Some ()"]
  by (simp add: rejectedByValidation_def complaint_valid_def complaint_short_def trim_examples
        insert_refuses_def insert_unreachable_def insert_accepts_def emptyComplaintForm_def)

section \<open>Properties of signInWithGoogle\<close>

lemma message_includes_mentions: "message_includes err t = mentions err t"
  by (cases "message err") (simp_all add: message_includes_def mentions_def js_includes_is_substring)

lemma signInWithGoogle_try_cases:
  "signInWithGoogle_try e c =
     (if notConfigured e then
        (Inr (setup_error
           ''Supabase is not properly configured. Please contact the administrator.''), c)
      else
        (case oauth_response c (oauth_calls c) of
           Rejected thrown \<Rightarrow> (Inl thrown, c\<lparr>oauth_calls := Suc (oauth_calls c)\<rparr>)
         | Resolved r \<Rightarrow>
             (case resp_error r of
                Some err \<Rightarrow> (Inr (explanation err), c\<lparr>oauth_calls := Suc (oauth_calls c)\<rparr>)
              | None \<Rightarrow>
                  (Inr \<lparr>data = resp_data r, error = None, needsSetup = None\<rparr>,
                   c\<lparr>oauth_calls := Suc (oauth_calls c)\<rparr>))))"
  by (simp add: signInWithGoogle_try_def signInWithOAuth_def explanation_def
        message_includes_mentions split: promise.split option.split)

lemma signInWithGoogle_try_part_001_cases:
  "signInWithGoogle_try_part_001 e c =
     (if notConfigured e then
        (Inr (setup_error
           ''Supabase is not properly configured. Please contact the administrator.''), c)
      else
        (case oauth_response c (oauth_calls c) of
           Rejected thrown \<Rightarrow> (Inl thrown, c\<lparr>oauth_calls := Suc (oauth_calls c)\<rparr>)
         | Resolved r \<Rightarrow>
             (case resp_error r of
                Some err \<Rightarrow>
                  (Inr (explanation_part_001 err), c\<lparr>oauth_calls := Suc (oauth_calls c)\<rparr>)
              | None \<Rightarrow>
                  (Inr \<lparr>data = resp_data r, error = None, needsSetup = None\<rparr>,
                   c\<lparr>oauth_calls := Suc (oauth_calls c)\<rparr>))))"
  by (simp add: signInWithGoogle_try_part_001_def signInWithOAuth_def explanation_part_001_def
        message_includes_mentions split: promise.split option.split)


lemma signInWithGoogle_cases:
  "signInWithGoogle e c =
     (if notConfigured e then
        (Inr (setup_error
           ''Supabase is not properly configured. Please contact the administrator.''), c)
      else
        (case oauth_response c (oauth_calls c) of
           Rejected thrown \<Rightarrow>
             (Inr (plain_error
                ''An unexpected error occurred with Google Sign-In. Please try again or use email/password login.''),
              c\<lparr>oauth_calls := Suc (oauth_calls c)\<rparr>)
         | Resolved r \<Rightarrow>
             (case resp_error r of
                Some err \<Rightarrow> (Inr (explanation err), c\<lparr>oauth_calls := Suc (oauth_calls c)\<rparr>)
              | None \<Rightarrow>
                  (Inr \<lparr>data = resp_data r, error = None, needsSetup = None\<rparr>,
                   c\<lparr>oauth_calls := Suc (oauth_calls c)\<rparr>))))"
  by (simp add: signInWithGoogle_def signInWithGoogle_try_cases split: promise.split option.split)

lemma signInWithGoogle_part_001_cases:
  "signInWithGoogle_part_001 e c =
     (if notConfigured e then
        (Inr (setup_error
           ''Supabase is not properly configured. Please contact the administrator.''), c)
      else
        (case oauth_response c (oauth_calls c) of
           Rejected thrown \<Rightarrow>
             (Inr (plain_error
                ''An unexpected error occurred with Google Sign-In. Please try again or use email/password login.''),
              c\<lparr>oauth_calls := Suc (oauth_calls c)\<rparr>)
         | Resolved r \<Rightarrow>
             (case resp_error r of
                Some err \<Rightarrow>
                  (Inr (explanation_part_001 err), c\<lparr>oauth_calls := Suc (oauth_calls c)\<rparr>)
              | None \<Rightarrow>
                  (Inr \<lparr>data = resp_data r, error = None, needsSetup = None\<rparr>,
                   c\<lparr>oauth_calls := Suc (oauth_calls c)\<rparr>))))"
  by (simp add: signInWithGoogle_part_001_def signInWithGoogle_try_part_001_cases
        split: promise.split option.split)





text \<open>
  Claim C4 as stated has the chain end in an unauthorized/invalid check with its own
  explanation and \<open>needsSetup\<close>. The \<open>signInWithGoogle\<close> of src/unnamed/part_001 has no
  such check: an error whose message is \<open>unauthorized\<close> gets the generic failure message,
  without \<open>needsSetup\<close>.
\<close>

theorem signInWithGoogle_part_001_unauthorized_counterexample:
  "message_includes (oauth_error ''unauthorized'') ''unauthorized'' \<and>
   fst (signInWithGoogle_part_001 env_configured (client_failing ''unauthorized'')) =
     Inr \<lparr>data = None,
          error = Some \<lparr>code = None,
                        message = Some ''Google Sign-In failed: unauthorized. Please try again or contact support.''\<rparr>,
          needsSetup = None\<rparr>"
  by (simp add: signInWithGoogle_part_001_def signInWithGoogle_try_part_001_def
        signInWithOAuth_def client_failing_def oauth_error_def env_configured_def
        notConfigured_def falsy_def message_includes_def plain_error_def interpolate_def)

text \<open>
  Claim C4, as the code has it. For an error returned by the OAuth call, \<open>signInWithGoogle\<close>
  of src/lib/supabase.ts selects its answer by the substrings of the error message: not
  enabled/provider first, then redirect/url, client_id/client and unauthorized/invalid, in
  that order, each with its static explanation and \<open>needsSetup\<close> true, and the generic
  failure message without \<open>needsSetup\<close> for any other message. The \<open>signInWithGoogle\<close> of
  src/unnamed/part_001 does the same with its own texts and without the
  unauthorized/invalid check.
\<close>

theorem signInWithGoogle_classifies:
  "\<not> notConfigured e \<Longrightarrow>
   oauth_response c (oauth_calls c) = Resolved (Response d (Some err)) \<Longrightarrow>
   fst (signInWithGoogle e c) = Inr (explanation err) \<and>
   fst (signInWithGoogle_part_001 e c) = Inr (explanation_part_001 err)"
  by (simp add: signInWithGoogle_cases signInWithGoogle_part_001_cases)

theorem signInWithGoogle_classifies_witness:
  "\<not> notConfigured env_configured \<and>
   fst (signInWithGoogle env_configured (client_failing ''Unsupported provider: provider is not enabled'')) =
     Inr (setup_error
       ''Google Sign-In is not enabled in Supabase. Please contact the administrator to enable the Google OAuth provider in the Supabase dashboard.'') \<and>
   fst (signInWithGoogle_part_001 env_configured (client_failing ''Unsupported provider: provider is not enabled'')) =
     Inr (setup_error
       ''Google Sign-In is not enabled. Please contact the administrator to enable Google OAuth in Supabase.'')"
  using signInWithGoogle_classifies
    [of env_configured "client_failing ''Unsupported provider: provider is not enabled''" None
        "oauth_error ''Unsupported provider: provider is not enabled''"]
  by (simp add: notConfigured_def falsy_def env_configured_def client_failing_def
        explanation_def explanation_part_001_def message_includes_mentions [symmetric]
        message_includes_def oauth_error_def)



section \<open>Properties of createUserProfileFromGoogle\<close>

lemma toUpperCase_example: "toUpperCase ''a1b2c3d4'' = ''A1B2C3D4''"
  by code_simp

text \<open>
  Claim C9 as stated makes the name the \<open>full_name\<close> or \<open>name\<close> metadata unless both are
  absent. For a user whose \<open>full_name\<close> and \<open>name\<close> are both present and empty, the
  name is \<open>Google User\<close>, which is neither.
\<close>

theorem profileData_blank_names_counterexample:
  "metadata_full_name google_user_blank_names = Some '''' \<and>
   metadata_name google_user_blank_names = Some '''' \<and>
   u_name (profileData google_user_blank_names) = ''Google User''"
  by (simp add: metadata_full_name_def metadata_name_def google_user_blank_names_def
        profileData_def or_else_def Let_def)

text \<open>
  Claim C9, as the code has it. The profile row built by \<open>createUserProfileFromGoogle\<close> has
  the role student, the gender Male, an empty mobile, the user's id and email, and the
  university id \<open>GOOGLE_\<close> followed by the first 8 characters of the user's id in upper
  case. Its name is the \<open>full_name\<close> metadata when that is present and not empty, else the
  \<open>name\<close> metadata when that is present and not empty, else \<open>Google User\<close>.
\<close>

theorem profileData_fields:
  "role (profileData u) = Student \<and>
   gender (profileData u) = Male \<and>
   mobile (profileData u) = '''' \<and>
   u_id (profileData u) = g_id u \<and>
   u_email (profileData u) = g_email u \<and>
   university_id (profileData u) = ''GOOGLE_'' @ toUpperCase (take 8 (g_id u)) \<and>
   (\<not> falsy (metadata_full_name u) \<longrightarrow> Some (u_name (profileData u)) = metadata_full_name u) \<and>
   (falsy (metadata_full_name u) \<and> \<not> falsy (metadata_name u) \<longrightarrow>
      Some (u_name (profileData u)) = metadata_name u) \<and>
   (falsy (metadata_full_name u) \<and> falsy (metadata_name u) \<longrightarrow>
      u_name (profileData u) = ''Google User'')"
  by (simp add: profileData_def Let_def substring0_def or_else_def falsy_def
        metadata_full_name_def metadata_name_def split: option.split)

theorem profileData_fields_witness:
  "profileData google_user_full =
     \<lparr>u_id = ''a1b2c3d4-e5f6-7890-abcd-ef0123456789'', u_email = Some ''c221001@ugrad.iiuc.ac.bd'',
      u_name = ''Rahim Uddin'', university_id = ''GOOGLE_A1B2C3D4'', mobile = '''',
      gender = Male, role = Student\<rparr> \<and>
   \<not> falsy (metadata_full_name google_user_full) \<and>
   falsy (metadata_full_name google_user_blank_names) \<and>
   falsy (metadata_name google_user_blank_names) \<and>
   u_name (profileData google_user_blank_names) = ''Google User''"
  using profileData_fields [of google_user_full] profileData_fields [of google_user_blank_names]
  by (simp add: profileData_def Let_def substring0_def or_else_def falsy_def
        metadata_full_name_def metadata_name_def google_user_full_def
        google_user_blank_names_def toUpperCase_example)

section \<open>Properties of handleGoogleCallback\<close>

lemma callback_new_profile:
  assumes "signed_in b u" "select_fault b = NoFault" "users b (g_id u) = None"
    "insert_fault b = NoFault"
  shows "handleGoogleCallback b =
     (\<lparr>success = True, op_error = None, user = Some u\<rparr>,
      b\<lparr>calls := calls b @ [SelectUser (g_id u), InsertUser (profileData u)],
        users := (users b)(g_id u := Some (profileData u))\<rparr>)"
proof -
  from assms(1) obtain sess where
    s: "getSession_outcome b = Resolved (Response (Some sess) None)" "session_user sess = Some u"
    unfolding signed_in_def by blast
  have id: "u_id (profileData u) = g_id u"
    by (simp add: profileData_def Let_def)
  show ?thesis
    using s assms(2-4)
    by (simp add: handleGoogleCallback_def select_user_single_def
          createUserProfileFromGoogle_def insert_user_single_def Let_def id no_rows_error_def)
qed

lemma callback_existing_profile:
  assumes "signed_in b u" "select_fault b = NoFault" "users b (g_id u) = Some row"
  shows "handleGoogleCallback b =
     (\<lparr>success = True, op_error = None, user = Some u\<rparr>,
      b\<lparr>calls := calls b @ [SelectUser (g_id u)]\<rparr>)"
proof -
  from assms(1) obtain sess where
    s: "getSession_outcome b = Resolved (Response (Some sess) None)" "session_user sess = Some u"
    unfolding signed_in_def by blast
  show ?thesis
    using s assms(2-3)
    by (simp add: handleGoogleCallback_def select_user_single_def Let_def)
qed

lemma insert_user_single_keeps:
  "users b i = Some row \<Longrightarrow> users (snd (insert_user_single b r)) i = Some row"
  by (auto simp add: insert_user_single_def Let_def split: fault.split option.split)

lemma createUserProfileFromGoogle_keeps:
  "users b i = Some row \<Longrightarrow> users (snd (createUserProfileFromGoogle u b)) i = Some row"
  using insert_user_single_keeps [of b i row "profileData u"]
  by (cases "insert_user_single b (profileData u)")
     (simp add: createUserProfileFromGoogle_def split: promise.split option.split)

lemma select_user_single_users: "users (snd (select_user_single b i)) = users b"
  by (simp add: select_user_single_def Let_def split: fault.split option.split)

lemma callback_keeps_rows:
  "users b i = Some row \<Longrightarrow> users (snd (handleGoogleCallback b)) i = Some row"
proof -
  assume r: "users b i = Some row"
  have k: "users (snd (createUserProfileFromGoogle u b1)) i = Some row"
    if "users b1 = users b" for u b1
    using createUserProfileFromGoogle_keeps [of b1 i row u] that r by simp
  show ?thesis
  proof (cases "getSession_outcome b")
    case (Rejected thrown)
    then show ?thesis using r by (simp add: handleGoogleCallback_def)
  next
    case (Resolved got)
    show ?thesis
    proof (cases "\<exists>u. signed_in b u")
      case False
      then show ?thesis
        using r Resolved
        by (cases got) (auto simp add: handleGoogleCallback_def signed_in_def
              split: option.split)
    next
      case True
      then obtain u sess where
        s: "getSession_outcome b = Resolved (Response (Some sess) None)"
           "session_user sess = Some u"
        unfolding signed_in_def by blast
      obtain p b1 where sel: "select_user_single b (g_id u) = (p, b1)"
        by (cases "select_user_single b (g_id u)")
      have b1: "users b1 = users b"
        using select_user_single_users [of b "g_id u"] sel by simp
      obtain created b2 where cr: "createUserProfileFromGoogle u b1 = (created, b2)"
        by (cases "createUserProfileFromGoogle u b1")
      have b2: "users b2 i = Some row"
        using k [OF b1, of u] cr by simp
      show ?thesis
        using s sel cr b1 b2 r
        by (simp add: handleGoogleCallback_def Let_def
              split: promise.split option.split)
    qed
  qed
qed

lemma select_user_single_snd:
  "snd (select_user_single b i) = b\<lparr>calls := calls b @ [SelectUser i]\<rparr>"
  by (simp add: select_user_single_def Let_def split: fault.split option.split)

lemma select_user_single_pair:
  "select_user_single b (g_id u) = (lookup b u, b\<lparr>calls := calls b @ [SelectUser (g_id u)]\<rparr>)"
  using select_user_single_snd [of b "g_id u"]
  by (cases "select_user_single b (g_id u)") (simp add: lookup_def)

lemma lookup_no_fault:
  "select_fault b = NoFault \<Longrightarrow>
   lookup b u =
     Resolved (Response (users b (g_id u))
       (case users b (g_id u) of None \<Rightarrow> Some no_rows_error | Some row \<Rightarrow> None))"
  by (simp add: lookup_def select_user_single_def Let_def split: option.split)

lemma no_rows_not_failed: "\<not> lookup_failed (Some no_rows_error)"
  by (simp add: lookup_failed_def no_rows_error_def)

lemma callback_not_signed_in:
  assumes "\<not> (\<exists>u. signed_in b u)"
  shows "success (fst (handleGoogleCallback b)) = False \<and> snd (handleGoogleCallback b) = b"
proof (cases "getSession_outcome b")
  case (Rejected thrown)
  then show ?thesis by (simp add: handleGoogleCallback_def callback_failure_def)
next
  case (Resolved got)
  obtain d e where got: "got = Response d e" by (cases got)
  show ?thesis
  proof (cases e)
    case (Some sessionError)
    with Resolved got show ?thesis by (simp add: handleGoogleCallback_def callback_failure_def)
  next
    case None
    note e = None
    show ?thesis
    proof (cases d)
      case None
      with Resolved got e show ?thesis by (simp add: handleGoogleCallback_def callback_failure_def)
    next
      case (Some sess)
      show ?thesis
      proof (cases "session_user sess")
        case None
        with Resolved got e Some show ?thesis by (simp add: handleGoogleCallback_def callback_failure_def)
      next
        case (Some u)
        with Resolved got e \<open>d = Some sess\<close> have "signed_in b u"
          by (simp add: signed_in_def)
        with assms show ?thesis by blast
      qed
    qed
  qed
qed

lemma callback_after_lookup:
  assumes "signed_in b u"
  shows "handleGoogleCallback b =
     (case lookup b u of
        Rejected thrown \<Rightarrow>
          (callback_failure thrown, b\<lparr>calls := calls b @ [SelectUser (g_id u)]\<rparr>)
      | Resolved found \<Rightarrow>
          (case (if lookup_failed (resp_error found) then resp_error found else None) of
             Some profileError \<Rightarrow>
               (callback_failure profileError, b\<lparr>calls := calls b @ [SelectUser (g_id u)]\<rparr>)
           | None \<Rightarrow>
               (case resp_data found of
                  Some existingProfile \<Rightarrow>
                    (\<lparr>success = True, op_error = None, user = Some u\<rparr>,
                     b\<lparr>calls := calls b @ [SelectUser (g_id u)]\<rparr>)
                | None \<Rightarrow>
                    (case createUserProfileFromGoogle u
                            (b\<lparr>calls := calls b @ [SelectUser (g_id u)]\<rparr>) of
                       (created, b2) \<Rightarrow>
                         if \<not> success created
                         then (\<lparr>success = False, op_error = op_error created, user = None\<rparr>,
                               b2)
                         else (\<lparr>success = True, op_error = None, user = Some u\<rparr>, b2)))))"
proof -
  from assms obtain sess where
    s: "getSession_outcome b = Resolved (Response (Some sess) None)" "session_user sess = Some u"
    unfolding signed_in_def by blast
  show ?thesis
    using s
    by (simp add: handleGoogleCallback_def select_user_single_pair Let_def lookup_failed_def
          split: promise.split option.split)
qed


lemma create_calls:
  "calls (snd (createUserProfileFromGoogle u b)) = calls b @ [InsertUser (profileData u)]"
  by (simp add: createUserProfileFromGoogle_def insert_user_single_def Let_def
        split: fault.split option.split)

lemma create_accepted:
  "insert_fault b = NoFault \<Longrightarrow> users b (g_id u) = None \<Longrightarrow>
   createUserProfileFromGoogle u b =
     (\<lparr>success = True, op_error = None\<rparr>,
      b\<lparr>calls := calls b @ [InsertUser (profileData u)],
        users := (users b)(g_id u := Some (profileData u))\<rparr>)"
proof -
  have id: "u_id (profileData u) = g_id u"
    by (simp add: profileData_def Let_def)
  assume "insert_fault b = NoFault" "users b (g_id u) = None"
  then show ?thesis
    by (simp add: createUserProfileFromGoogle_def insert_user_single_def Let_def id)
qed

lemma create_refused:
  "insert_fault b \<noteq> NoFault \<or> users b (g_id u) \<noteq> None \<Longrightarrow>
   success (fst (createUserProfileFromGoogle u b)) = False \<and>
   users (snd (createUserProfileFromGoogle u b)) = users b"
proof -
  have id: "u_id (profileData u) = g_id u"
    by (simp add: profileData_def Let_def)
  assume "insert_fault b \<noteq> NoFault \<or> users b (g_id u) \<noteq> None"
  then show ?thesis
    by (cases "insert_fault b"; cases "users b (g_id u)")
       (simp_all add: createUserProfileFromGoogle_def insert_user_single_def Let_def id)
qed

lemma callback_lookup_thrown:
  "signed_in b u \<Longrightarrow> lookup b u = Rejected thrown \<Longrightarrow>
   handleGoogleCallback b =
     (callback_failure thrown, b\<lparr>calls := calls b @ [SelectUser (g_id u)]\<rparr>)"
  by (simp add: callback_after_lookup)

lemma callback_lookup_error:
  "signed_in b u \<Longrightarrow> lookup b u = Resolved (Response d (Some err)) \<Longrightarrow>
   code err \<noteq> Some ''PGRST116'' \<Longrightarrow>
   handleGoogleCallback b =
     (callback_failure err, b\<lparr>calls := calls b @ [SelectUser (g_id u)]\<rparr>)"
  by (simp add: callback_after_lookup lookup_failed_def)

lemma callback_lookup_row:
  "signed_in b u \<Longrightarrow> lookup b u = Resolved (Response (Some row) perr) \<Longrightarrow>
   \<not> lookup_failed perr \<Longrightarrow>
   handleGoogleCallback b =
     (\<lparr>success = True, op_error = None, user = Some u\<rparr>,
      b\<lparr>calls := calls b @ [SelectUser (g_id u)]\<rparr>)"
  by (simp add: callback_after_lookup)

lemma callback_lookup_no_row:
  assumes "signed_in b u" "lookup b u = Resolved (Response None perr)" "\<not> lookup_failed perr"
  shows "calls (snd (handleGoogleCallback b)) =
           calls b @ [SelectUser (g_id u), InsertUser (profileData u)]"
    and "insert_fault b = NoFault \<and> users b (g_id u) = None \<longrightarrow>
           handleGoogleCallback b =
             (\<lparr>success = True, op_error = None, user = Some u\<rparr>,
              b\<lparr>calls := calls b @ [SelectUser (g_id u), InsertUser (profileData u)],
                users := (users b)(g_id u := Some (profileData u))\<rparr>)"
    and "insert_fault b \<noteq> NoFault \<or> users b (g_id u) \<noteq> None \<longrightarrow>
           success (fst (handleGoogleCallback b)) = False \<and>
           users (snd (handleGoogleCallback b)) = users b"
proof -
  let ?b1 = "b\<lparr>calls := calls b @ [SelectUser (g_id u)]\<rparr>"
  obtain created b2 where cr: "createUserProfileFromGoogle u ?b1 = (created, b2)"
    by (cases "createUserProfileFromGoogle u ?b1")
  have hc: "handleGoogleCallback b =
      (if \<not> success created
       then (\<lparr>success = False, op_error = op_error created, user = None\<rparr>, b2)
       else (\<lparr>success = True, op_error = None, user = Some u\<rparr>, b2))"
    using assms cr by (simp add: callback_after_lookup)
  show "calls (snd (handleGoogleCallback b)) =
           calls b @ [SelectUser (g_id u), InsertUser (profileData u)]"
    using create_calls [of u ?b1] cr by (simp add: hc)
  show "insert_fault b = NoFault \<and> users b (g_id u) = None \<longrightarrow>
           handleGoogleCallback b =
             (\<lparr>success = True, op_error = None, user = Some u\<rparr>,
              b\<lparr>calls := calls b @ [SelectUser (g_id u), InsertUser (profileData u)],
                users := (users b)(g_id u := Some (profileData u))\<rparr>)"
    using create_accepted [of ?b1 u] cr by (auto simp add: hc)
  show "insert_fault b \<noteq> NoFault \<or> users b (g_id u) \<noteq> None \<longrightarrow>
           success (fst (handleGoogleCallback b)) = False \<and>
           users (snd (handleGoogleCallback b)) = users b"
    using create_refused [of ?b1 u] cr by (auto simp add: hc)
qed

text \<open>
  Claim C6 as stated has a profile row inserted whenever the session holds a user and the
  table has no row for that user. When the lookup itself fails with an error other than
  PGRST116 (here: permission denied), \<open>handleGoogleCallback\<close> returns the failure and makes
  no insert, although the table has no row for the user.
\<close>

theorem handleGoogleCallback_lookup_denied_counterexample:
  "getSession_outcome backend_lookup_denied =
     Resolved (Response (Some \<lparr>session_user = Some google_user_full\<rparr>) None) \<and>
   users backend_lookup_denied (g_id google_user_full) = None \<and>
   fst (handleGoogleCallback backend_lookup_denied) =
     \<lparr>success = False, op_error = Some permission_denied, user = None\<rparr> \<and>
   users (snd (handleGoogleCallback backend_lookup_denied)) (g_id google_user_full) = None \<and>
   calls (snd (handleGoogleCallback backend_lookup_denied)) =
     [SelectUser ''a1b2c3d4-e5f6-7890-abcd-ef0123456789'']"
  by (simp add: handleGoogleCallback_def select_user_single_def Let_def backend_lookup_denied_def
        google_user_full_def permission_denied_def callback_failure_def)

text \<open>
  Claim C6, as the code has it. \<open>handleGoogleCallback\<close> creates the profile row exactly
  when the profile lookup reports no row. With a session that was fetched without error and
  holds a user: when the lookup answers without a row and without an error other than
  PGRST116, the row built from the Google data is handed to the insert, which adds it to
  the users table when the database accepts it (no row with that id, no failure of the
  insert) and otherwise makes the callback fail with the table as it was; when the lookup
  answers with a row and without an error other than PGRST116, no insert is made and the
  callback succeeds; when the lookup answers with an error other than PGRST116, or throws,
  the callback fails without an insert. A lookup that goes through answers with the row of
  the table, or with PGRST116 when the table has no row with that id, so that then a row is
  inserted when none exists and no insert is made when one exists. Without a signed-in
  user (the session fetch throws or reports an error, or there is no session or no user in
  it) the callback fails without touching the users table. In every case the rows the
  table already holds stay as they are.
\<close>

theorem handleGoogleCallback_profile_creation:
  "(\<not> (\<exists>v. signed_in b v) \<longrightarrow>
      success (fst (handleGoogleCallback b)) = False \<and> snd (handleGoogleCallback b) = b) \<and>
   (signed_in b u \<and> lookup b u = Resolved (Response None perr) \<and> \<not> lookup_failed perr \<longrightarrow>
      calls (snd (handleGoogleCallback b)) =
        calls b @ [SelectUser (g_id u), InsertUser (profileData u)] \<and>
      (insert_fault b = NoFault \<and> users b (g_id u) = None \<longrightarrow>
         handleGoogleCallback b =
           (\<lparr>success = True, op_error = None, user = Some u\<rparr>,
            b\<lparr>calls := calls b @ [SelectUser (g_id u), InsertUser (profileData u)],
              users := (users b)(g_id u := Some (profileData u))\<rparr>)) \<and>
      (insert_fault b \<noteq> NoFault \<or> users b (g_id u) \<noteq> None \<longrightarrow>
         success (fst (handleGoogleCallback b)) = False \<and>
         users (snd (handleGoogleCallback b)) = users b)) \<and>
   (signed_in b u \<and> lookup b u = Resolved (Response (Some row) perr) \<and>
    \<not> lookup_failed perr \<longrightarrow>
      handleGoogleCallback b =
        (\<lparr>success = True, op_error = None, user = Some u\<rparr>,
         b\<lparr>calls := calls b @ [SelectUser (g_id u)]\<rparr>)) \<and>
   (signed_in b u \<and> lookup b u = Resolved (Response d (Some err)) \<and>
    code err \<noteq> Some ''PGRST116'' \<longrightarrow>
      handleGoogleCallback b =
        (callback_failure err, b\<lparr>calls := calls b @ [SelectUser (g_id u)]\<rparr>)) \<and>
   (signed_in b u \<and> lookup b u = Rejected thrown \<longrightarrow>
      handleGoogleCallback b =
        (callback_failure thrown, b\<lparr>calls := calls b @ [SelectUser (g_id u)]\<rparr>)) \<and>
   (select_fault b = NoFault \<longrightarrow>
      lookup b u =
        Resolved (Response (users b (g_id u))
          (case users b (g_id u) of None \<Rightarrow> Some no_rows_error | Some r \<Rightarrow> None)) \<and>
      \<not> lookup_failed (Some no_rows_error) \<and> \<not> lookup_failed None) \<and>
   (signed_in b u \<and> select_fault b = NoFault \<and> users b (g_id u) = None \<and>
    insert_fault b = NoFault \<longrightarrow>
      handleGoogleCallback b =
        (\<lparr>success = True, op_error = None, user = Some u\<rparr>,
         b\<lparr>calls := calls b @ [SelectUser (g_id u), InsertUser (profileData u)],
           users := (users b)(g_id u := Some (profileData u))\<rparr>)) \<and>
   (signed_in b u \<and> select_fault b = NoFault \<and> users b (g_id u) = Some row \<longrightarrow>
      handleGoogleCallback b =
        (\<lparr>success = True, op_error = None, user = Some u\<rparr>,
         b\<lparr>calls := calls b @ [SelectUser (g_id u)]\<rparr>)) \<and>
   (users b i = Some old \<longrightarrow> users (snd (handleGoogleCallback b)) i = Some old)"
proof -
  have none_ok: "\<not> lookup_failed None"
    by (simp add: lookup_failed_def)
  show ?thesis
    using callback_not_signed_in [of b]
      callback_lookup_no_row [of b u perr]
      callback_lookup_row [of b u row perr]
      callback_lookup_error [of b u d err]
      callback_lookup_thrown [of b u thrown]
      lookup_no_fault [of b u] no_rows_not_failed none_ok
      callback_new_profile [of b u] callback_existing_profile [of b u row]
      callback_keeps_rows [of b i old]
    by blast
qed

theorem handleGoogleCallback_profile_creation_witness:
  "signed_in backend_new_user google_user_full \<and>
   lookup backend_new_user google_user_full = Resolved (Response None (Some no_rows_error)) \<and>
   handleGoogleCallback backend_new_user =
     (\<lparr>success = True, op_error = None, user = Some google_user_full\<rparr>,
      backend_new_user
        \<lparr>calls := [SelectUser (g_id google_user_full), InsertUser (profileData google_user_full)],
         users := (users backend_new_user)
                    (g_id google_user_full := Some (profileData google_user_full))\<rparr>) \<and>
   lookup backend_known_user google_user_full = Resolved (Response (Some existing_row) None) \<and>
   handleGoogleCallback backend_known_user =
     (\<lparr>success = True, op_error = None, user = Some google_user_full\<rparr>,
      backend_known_user\<lparr>calls := [SelectUser (g_id google_user_full)]\<rparr>) \<and>
   lookup backend_hidden_row google_user_full = Resolved (Response None (Some no_rows_error)) \<and>
   users backend_hidden_row (g_id google_user_full) = Some existing_row \<and>
   calls (snd (handleGoogleCallback backend_hidden_row)) =
     [SelectUser (g_id google_user_full), InsertUser (profileData google_user_full)] \<and>
   success (fst (handleGoogleCallback backend_hidden_row)) = False \<and>
   users (snd (handleGoogleCallback backend_hidden_row)) = users backend_hidden_row \<and>
   handleGoogleCallback backend_lookup_denied =
     (callback_failure permission_denied,
      backend_lookup_denied\<lparr>calls := [SelectUser (g_id google_user_full)]\<rparr>) \<and>
   handleGoogleCallback backend_lookup_unreachable =
     (callback_failure \<lparr>code = None, message = Some ''Failed to fetch''\<rparr>,
      backend_lookup_unreachable\<lparr>calls := [SelectUser (g_id google_user_full)]\<rparr>) \<and>
   \<not> (\<exists>v. signed_in backend_signed_out v) \<and>
   success (fst (handleGoogleCallback backend_signed_out)) = False \<and>
   snd (handleGoogleCallback backend_signed_out) = backend_signed_out \<and>
   \<not> (\<exists>v. signed_in backend_session_error v) \<and>
   success (fst (handleGoogleCallback backend_session_error)) = False \<and>
   snd (handleGoogleCallback backend_session_error) = backend_session_error"
proof -
  have s1: "signed_in backend_new_user google_user_full"
    and s2: "signed_in backend_known_user google_user_full"
    and s3: "signed_in backend_hidden_row google_user_full"
    and s4: "signed_in backend_lookup_denied google_user_full"
    and s5: "signed_in backend_lookup_unreachable google_user_full"
    by (simp_all add: signed_in_def backend_new_user_def backend_known_user_def
          backend_hidden_row_def backend_lookup_denied_def backend_lookup_unreachable_def)
  have n1: "\<not> (\<exists>v. signed_in backend_signed_out v)"
    and n2: "\<not> (\<exists>v. signed_in backend_session_error v)"
    by (simp_all add: signed_in_def backend_signed_out_def backend_session_error_def)
  have l1: "lookup backend_new_user google_user_full = Resolved (Response None (Some no_rows_error))"
    and l2: "lookup backend_known_user google_user_full =
               Resolved (Response (Some existing_row) None)"
    and l3: "lookup backend_hidden_row google_user_full =
               Resolved (Response None (Some no_rows_error))"
    and l4: "lookup backend_lookup_denied google_user_full =
               Resolved (Response None (Some permission_denied))"
    and l5: "lookup backend_lookup_unreachable google_user_full =
               Rejected \<lparr>code = None, message = Some ''Failed to fetch''\<rparr>"
    by (simp_all add: lookup_def select_user_single_def Let_def backend_new_user_def
          backend_known_user_def backend_hidden_row_def backend_lookup_denied_def
          backend_lookup_unreachable_def google_user_full_def)
  have f: "\<not> lookup_failed (Some no_rows_error)" "\<not> lookup_failed None"
    "code permission_denied \<noteq> Some ''PGRST116''"
    by (simp_all add: lookup_failed_def no_rows_error_def permission_denied_def)
  have t1: "insert_fault backend_new_user = NoFault"
    "users backend_new_user (g_id google_user_full) = None"
    "calls backend_new_user = []"
    by (simp_all add: backend_new_user_def)
  have t2: "calls backend_known_user = []" "calls backend_lookup_denied = []"
    "calls backend_lookup_unreachable = []" "calls backend_hidden_row = []"
    by (simp_all add: backend_known_user_def backend_lookup_denied_def
          backend_lookup_unreachable_def backend_hidden_row_def)
  have t3: "users backend_hidden_row (g_id google_user_full) = Some existing_row"
    by (simp add: backend_hidden_row_def google_user_full_def)
  have w1: "handleGoogleCallback backend_new_user =
     (\<lparr>success = True, op_error = None, user = Some google_user_full\<rparr>,
      backend_new_user
        \<lparr>calls := [SelectUser (g_id google_user_full), InsertUser (profileData google_user_full)],
         users := (users backend_new_user)
                    (g_id google_user_full := Some (profileData google_user_full))\<rparr>)"
    using handleGoogleCallback_profile_creation
            [where b = backend_new_user and u = google_user_full and perr = "Some no_rows_error"]
          s1 l1 f t1
    by simp
  have w2: "handleGoogleCallback backend_known_user =
     (\<lparr>success = True, op_error = None, user = Some google_user_full\<rparr>,
      backend_known_user\<lparr>calls := [SelectUser (g_id google_user_full)]\<rparr>)"
    using handleGoogleCallback_profile_creation
            [where b = backend_known_user and u = google_user_full and perr = None
               and row = existing_row]
          s2 l2 f t2
    by simp
  have w3: "calls (snd (handleGoogleCallback backend_hidden_row)) =
       [SelectUser (g_id google_user_full), InsertUser (profileData google_user_full)] \<and>
     success (fst (handleGoogleCallback backend_hidden_row)) = False \<and>
     users (snd (handleGoogleCallback backend_hidden_row)) = users backend_hidden_row"
    using handleGoogleCallback_profile_creation
            [where b = backend_hidden_row and u = google_user_full
               and perr = "Some no_rows_error"]
          s3 l3 f t2 t3
    by simp
  have w4: "handleGoogleCallback backend_lookup_denied =
     (callback_failure permission_denied,
      backend_lookup_denied\<lparr>calls := [SelectUser (g_id google_user_full)]\<rparr>)"
    using handleGoogleCallback_profile_creation
            [where b = backend_lookup_denied and u = google_user_full and d = None
               and err = permission_denied]
          s4 l4 f t2
    by simp
  have w5: "handleGoogleCallback backend_lookup_unreachable =
     (callback_failure \<lparr>code = None, message = Some ''Failed to fetch''\<rparr>,
      backend_lookup_unreachable\<lparr>calls := [SelectUser (g_id google_user_full)]\<rparr>)"
    using handleGoogleCallback_profile_creation
            [where b = backend_lookup_unreachable and u = google_user_full
               and thrown = "\<lparr>code = None, message = Some ''Failed to fetch''\<rparr>"]
          s5 l5 t2
    by simp
  have w6: "success (fst (handleGoogleCallback backend_signed_out)) = False \<and>
     snd (handleGoogleCallback backend_signed_out) = backend_signed_out"
    using handleGoogleCallback_profile_creation [where b = backend_signed_out] n1 by blast
  have w7: "success (fst (handleGoogleCallback backend_session_error)) = False \<and>
     snd (handleGoogleCallback backend_session_error) = backend_session_error"
    using handleGoogleCallback_profile_creation [where b = backend_session_error] n2 by blast
  show ?thesis
    using s1 l1 w1 l2 w2 l3 t3 w3 w4 w5 n1 w6 n2 w7 by blast
qed

end
